theory Spec2Isabelle
  imports Main "HOL-Library.Sublist"
begin

section \<open>JavaScript values\<close>

text \<open>
  The client in \<^verbatim>\<open>src/lib/amqp.js\<close> is glue between three collaborators: the
  broker driver (\<^verbatim>\<open>amqplib\<close>), Node's \<^verbatim>\<open>EventEmitter\<close> and the built-ins
  \<^verbatim>\<open>JSON.parse\<close>, \<^verbatim>\<open>Buffer.from\<close> and \<^verbatim>\<open>toString\<close>. The values it moves around
  are plain JavaScript data. Numbers are kept to the integers (the client never
  computes with them), strings and buffers are byte strings, an object is the map from
  its own property names to their values, and a thrown value is always an
  \<^verbatim>\<open>Error\<close> object with a name and a message.
\<close>

datatype js_error = JsError (ename: string) (emessage: string)

datatype jsval =
    Undefined
  | Null
  | JBool bool
  | JNum int
  | JStr string
  | JBuf string
  | JErr js_error
  | JArr "jsval list"
  | JObj "string \<Rightarrow> jsval option"

text \<open>\<^verbatim>\<open>!v\<close> is \<open>\<not> truthy v\<close>.\<close>

fun truthy :: "jsval \<Rightarrow> bool" where
  "truthy Undefined = False"
| "truthy Null = False"
| "truthy (JBool b) = b"
| "truthy (JNum n) = (n \<noteq> 0)"
| "truthy (JStr s) = (s \<noteq> [])"
| "truthy (JBuf b) = True"
| "truthy (JErr e) = True"
| "truthy (JArr xs) = True"
| "truthy (JObj m) = True"

text \<open>
  Reading a property \<^verbatim>\<open>v.k\<close>: a \<^verbatim>\<open>TypeError\<close> on \<^verbatim>\<open>undefined\<close> and \<^verbatim>\<open>null\<close>, the
  own property of a plain object (\<^verbatim>\<open>undefined\<close> when it has none), the name and
  message of an error object. Inherited properties are not modelled: none of the keys
  the client reads is one.
\<close>

definition type_error :: "string \<Rightarrow> js_error" where
  "type_error what = JsError ''TypeError'' (''Cannot read properties of '' @ what)"

fun get_prop :: "jsval \<Rightarrow> string \<Rightarrow> js_error + jsval" where
  "get_prop Undefined k = Inl (type_error ''undefined'')"
| "get_prop Null k = Inl (type_error ''null'')"
| "get_prop (JObj m) k = Inr (case m k of None \<Rightarrow> Undefined | Some v \<Rightarrow> v)"
| "get_prop (JErr e) k =
     Inr (if k = ''message'' then JStr (emessage e)
          else if k = ''name'' then JStr (ename e) else Undefined)"
| "get_prop (JBool b) k = Inr Undefined"
| "get_prop (JNum n) k = Inr Undefined"
| "get_prop (JStr s) k = Inr Undefined"
| "get_prop (JBuf b) k = Inr Undefined"
| "get_prop (JArr xs) k = Inr Undefined"

text \<open>\<^verbatim>\<open>Object.prototype.hasOwnProperty\<close>, with the value.\<close>

fun own_prop :: "jsval \<Rightarrow> string \<Rightarrow> jsval option" where
  "own_prop (JObj m) k = m k"
| "own_prop Undefined k = None"
| "own_prop Null k = None"
| "own_prop (JBool b) k = None"
| "own_prop (JNum n) k = None"
| "own_prop (JStr s) k = None"
| "own_prop (JBuf b) k = None"
| "own_prop (JErr e) k = None"
| "own_prop (JArr xs) k = None"

text \<open>
  \<^verbatim>\<open>Object.assign(target, source)\<close> on a plain target: every own property of the
  source is written to the target, replacing the target's value where the key is
  already there. A \<^verbatim>\<open>null\<close> or \<^verbatim>\<open>undefined\<close> source is skipped; a primitive source
  has no named own properties.
\<close>

definition object_assign :: "(string \<Rightarrow> jsval option) \<Rightarrow> jsval \<Rightarrow> (string \<Rightarrow> jsval option)" where
  "object_assign target source =
     (case source of JObj m \<Rightarrow> target ++ m | _ \<Rightarrow> target)"

section \<open>The collaborators\<close>

text \<open>
  The built-ins the client calls. Each is a parameter of the model: \<open>Inl\<close> is the
  error it throws.
\<close>

record runtime =
  JSON_parse :: "string \<Rightarrow> js_error + jsval"
  toString :: "jsval \<Rightarrow> js_error + string"
  Buffer_from :: "jsval \<Rightarrow> js_error + string"

text \<open>
  The driver's channel and connection objects, as the test suite mocks them: one
  outcome per method. For the methods the client awaits, \<open>Inl\<close> is a throw or a
  rejected promise; for \<^verbatim>\<open>consume\<close> and \<^verbatim>\<open>ack\<close>, which it does not await, \<open>Inl\<close>
  is a throw. The driver's \<^verbatim>\<open>connect\<close> returns a promise, whose outcome is the
  argument of \<open>connect_settled\<close> below.
\<close>

record amqp_channel =
  assertExchange :: "jsval \<Rightarrow> jsval \<Rightarrow> js_error + jsval"
  assertQueue :: "jsval \<Rightarrow> js_error + jsval"
  bindQueue :: "jsval \<Rightarrow> jsval \<Rightarrow> jsval \<Rightarrow> js_error + jsval"
  consume :: "jsval \<Rightarrow> js_error + jsval"
  ack :: "jsval \<Rightarrow> js_error + jsval"
  publish :: "jsval \<Rightarrow> jsval \<Rightarrow> jsval \<Rightarrow> js_error + jsval"

record amqp_connection =
  createChannel :: "js_error + amqp_channel"

text \<open>
  What the client does to the outside world, in order: the calls it makes on the driver
  and the events it emits.
\<close>

datatype action =
    Connect jsval
  | CreateChannel
  | ConnectionOn string
  | ChannelOn string
  | AssertExchange jsval jsval
  | AssertQueue jsval
  | BindQueue jsval jsval jsval
  | Consume jsval
  | Ack jsval
  | Publish jsval jsval jsval
  | Emit string jsval

section \<open>The client's state\<close>

text \<open>
  A listener either returns (\<open>None\<close>) or throws. The fields are those the constructor
  declares, with the listeners the \<^verbatim>\<open>EventEmitter\<close> base class holds.
\<close>

type_synonym listener = "jsval \<Rightarrow> js_error option"

record client =
  channel :: "amqp_channel option"
  connection :: "amqp_connection option"
  mqConnection :: "amqp_connection option"
  topic :: jsval
  configuration :: jsval
  opts :: jsval
  listeners :: "(string \<times> listener) list"

text \<open>
  A computation runs on the client, returns a value or throws, may change the client's
  fields and leaves a trace of actions. A throw keeps the fields written so far.
\<close>

type_synonym 'a js = "client \<Rightarrow> (js_error + 'a) \<times> client \<times> action list"

definition ret :: "'a \<Rightarrow> 'a js" where
  "ret x st = (Inr x, st, [])"

definition throw :: "js_error \<Rightarrow> 'a js" where
  "throw e st = (Inl e, st, [])"

definition lift :: "js_error + 'a \<Rightarrow> 'a js" where
  "lift r st = (r, st, [])"

definition this :: "(client \<Rightarrow> 'a) \<Rightarrow> 'a js" where
  "this f st = (Inr (f st), st, [])"

definition assign :: "(client \<Rightarrow> client) \<Rightarrow> unit js" where
  "assign f st = (Inr (), f st, [])"

definition call :: "action \<Rightarrow> js_error + 'a \<Rightarrow> 'a js" where
  "call a r st = (r, st, [a])"

definition andthen :: "'a js \<Rightarrow> ('a \<Rightarrow> 'b js) \<Rightarrow> 'b js" where
  "andthen m f st =
     (case m st of
        (Inl e, st1, t1) \<Rightarrow> (Inl e, st1, t1)
      | (Inr x, st1, t1) \<Rightarrow> (case f x st1 of (r, st2, t2) \<Rightarrow> (r, st2, t1 @ t2)))"

text \<open>
  \<^verbatim>\<open>try { body } catch (e) { handler } finally { fin }\<close>: the handler runs when the
  body throws, the finally block runs in every case, and an error thrown by the finally
  block replaces the pending one.
\<close>

definition try_catch_finally :: "unit js \<Rightarrow> (js_error \<Rightarrow> unit js) \<Rightarrow> unit js \<Rightarrow> unit js" where
  "try_catch_finally body handler fin st =
     (case body st of (r, st1, t1) \<Rightarrow>
        (case (case r of Inl e \<Rightarrow> handler e st1 | Inr u \<Rightarrow> (Inr u, st1, [])) of (r2, st2, t2) \<Rightarrow>
           (case fin st2 of (r3, st3, t3) \<Rightarrow>
              ((case r3 of Inl e3 \<Rightarrow> Inl e3 | Inr u \<Rightarrow> r2), st3, t1 @ t2 @ t3))))"

text \<open>\<^verbatim>\<open>promise.catch(handler)\<close>, the promise being the computation \<open>body\<close>.\<close>

definition promise_catch :: "unit js \<Rightarrow> (js_error \<Rightarrow> unit js) \<Rightarrow> unit js" where
  "promise_catch body handler st =
     (case body st of
        (Inl e, st1, t1) \<Rightarrow> (case handler e st1 of (r2, st2, t2) \<Rightarrow> (r2, st2, t1 @ t2))
      | (Inr u, st1, t1) \<Rightarrow> (Inr u, st1, t1))"

subsection \<open>Emitting an event\<close>

text \<open>
  Node's \<^verbatim>\<open>emit\<close>: the listeners of the event run in the order they were added, and
  the first one that throws ends the emission with its error. An \<^verbatim>\<open>error\<close> event
  nobody listens to is thrown: the payload itself when it is an error object, an
  unhandled-error otherwise (Node appends the inspected payload to the message of that
  error; the model keeps the fixed part). The result is whether the event had a listener.
\<close>

fun run_listeners :: "listener list \<Rightarrow> jsval \<Rightarrow> js_error option" where
  "run_listeners [] payload = None"
| "run_listeners (l # ls) payload =
     (case l payload of Some e \<Rightarrow> Some e | None \<Rightarrow> run_listeners ls payload)"

definition unhandled :: "jsval \<Rightarrow> js_error" where
  "unhandled payload =
     (case payload of JErr e \<Rightarrow> e | _ \<Rightarrow> JsError ''Error'' ''Unhandled error.'')"

definition listeners_of :: "client \<Rightarrow> string \<Rightarrow> listener list" where
  "listeners_of st name = map snd (filter (\<lambda>p. fst p = name) (listeners st))"

definition emit_result :: "string \<Rightarrow> jsval \<Rightarrow> client \<Rightarrow> js_error + bool" where
  "emit_result name payload st =
     (case listeners_of st name of
        [] \<Rightarrow> if name = ''error'' then Inl (unhandled payload) else Inr False
      | l # ls \<Rightarrow>
          (case run_listeners (l # ls) payload of
             Some e \<Rightarrow> Inl e
           | None \<Rightarrow> Inr True))"

definition emit :: "string \<Rightarrow> jsval \<Rightarrow> bool js" where
  "emit name payload st = (emit_result name payload st, st, [Emit name payload])"

text \<open>\<^verbatim>\<open>client.on(name, listener)\<close>.\<close>

definition on :: "string \<Rightarrow> listener \<Rightarrow> client \<Rightarrow> client" where
  "on name l st = st\<lparr>listeners := listeners st @ [(name, l)]\<rparr>"

section \<open>The client\<close>

subsection \<open>The constructor\<close>

text \<open>
  The default of \<^verbatim>\<open>opts\<close> is taken when the argument is \<^verbatim>\<open>undefined\<close>, as a default
  parameter of JavaScript is. The constructor writes the fields, throws when the
  configuration is falsy, and otherwise calls the driver's \<^verbatim>\<open>connect\<close>; what it returns
  is the instance, or the error with no instance.
\<close>

definition default_opts :: jsval where
  "default_opts = JObj [''consume'' \<mapsto> JBool True, ''acknowledge'' \<mapsto> JBool True]"

definition constructor :: "jsval \<Rightarrow> jsval \<Rightarrow> jsval \<Rightarrow> (js_error + client) \<times> action list" where
  "constructor incomingConfiguration topic_arg opts_arg =
     (let st = \<lparr>channel = None, connection = None, mqConnection = None,
                topic = topic_arg, configuration = incomingConfiguration,
                opts = (if opts_arg = Undefined then default_opts else opts_arg),
                listeners = []\<rparr>
      in if \<not> truthy incomingConfiguration
         then (Inl (JsError ''Error'' ''No incoming configuration was found!''), [])
         else (Inr st, [Connect incomingConfiguration]))"

subsection \<open>connectToTopic\<close>

text \<open>Calling a method on a field that holds no object is a \<^verbatim>\<open>TypeError\<close>.\<close>

definition deref :: "string \<Rightarrow> 'a option \<Rightarrow> 'a js" where
  "deref what v = (case v of None \<Rightarrow> throw (type_error what) | Some x \<Rightarrow> ret x)"

text \<open>\<^verbatim>\<open>this.configuration.exchange.k\<close>\<close>

definition exchange_field :: "string \<Rightarrow> jsval js" where
  "exchange_field k =
     andthen (this configuration) (\<lambda>cfg.
     andthen (lift (get_prop cfg ''exchange'')) (\<lambda>ex.
     lift (get_prop ex k)))"

text \<open>
  The steps of the source in its order, every \<^verbatim>\<open>await\<close> passing the rejection on. The
  arguments of a call are evaluated before the call is made.
\<close>

definition connectToTopic :: "unit js" where
  "connectToTopic =
     andthen (this mqConnection) (\<lambda>mc.
     andthen (assign (\<lambda>s. s\<lparr>connection := mc\<rparr>)) (\<lambda>_.
     andthen (this connection) (\<lambda>c.
     andthen (deref ''undefined'' c) (\<lambda>conn.
     andthen (call CreateChannel (createChannel conn)) (\<lambda>ch.
     andthen (assign (\<lambda>s. s\<lparr>channel := Some ch\<rparr>)) (\<lambda>_.
     andthen (call (ConnectionOn ''error'') (Inr ())) (\<lambda>_.
     andthen (call (ChannelOn ''error'') (Inr ())) (\<lambda>_.
     andthen (exchange_field ''name'') (\<lambda>xname.
     andthen (exchange_field ''type'') (\<lambda>xtype.
     andthen (call (AssertExchange xname xtype) (assertExchange ch xname xtype)) (\<lambda>_.
     andthen (this topic) (\<lambda>tp.
     andthen (call (AssertQueue tp) (assertQueue ch tp)) (\<lambda>result.
     andthen (exchange_field ''name'') (\<lambda>xname2.
     andthen (call (BindQueue tp xname2 tp) (bindQueue ch tp xname2 tp)) (\<lambda>_.
     andthen (emit ''system'' result) (\<lambda>_.
     andthen (this opts) (\<lambda>options.
     andthen (lift (get_prop options ''consume'')) (\<lambda>flag.
     if flag = JBool True
     then andthen (call (Consume tp) (consume ch tp)) (\<lambda>_. ret ())
     else ret ()))))))))))))))))))"

text \<open>
  The promise chain the constructor leaves behind, run when the driver's \<^verbatim>\<open>connect\<close>
  settles with \<open>r\<close>: \<^verbatim>\<open>.then(async newConnection => ...).catch(e => ...)\<close>. The
  chain is run in one piece: what other calls may do between two of its \<^verbatim>\<open>await\<close>s is
  not part of the model.
\<close>

definition connect_settled :: "js_error + amqp_connection \<Rightarrow> unit js" where
  "connect_settled r =
     promise_catch
       (andthen (lift r) (\<lambda>newConnection.
        andthen (assign (\<lambda>s. s\<lparr>mqConnection := Some newConnection\<rparr>)) (\<lambda>_.
        connectToTopic)))
       (\<lambda>e. andthen (emit ''error'' (JStr (emessage e))) (\<lambda>_. ret ()))"

subsection \<open>The consume callback\<close>

text \<open>\<^verbatim>\<open>JSON.parse(msg.content.toString())\<close>\<close>

definition parse_body :: "runtime \<Rightarrow> jsval \<Rightarrow> js_error + jsval" where
  "parse_body rt msg =
     (case get_prop msg ''content'' of
        Inl e \<Rightarrow> Inl e
      | Inr content \<Rightarrow>
          (case (case content of
                   Undefined \<Rightarrow> Inl (type_error ''undefined'')
                 | Null \<Rightarrow> Inl (type_error ''null'')
                 | _ \<Rightarrow> toString rt content) of
             Inl e \<Rightarrow> Inl e
           | Inr s \<Rightarrow> JSON_parse rt s))"

text \<open>
  The \<^verbatim>\<open>finally\<close> block: the delivery is acknowledged when the option is the
  boolean \<^verbatim>\<open>true\<close> (\<^verbatim>\<open>===\<close>).
\<close>

definition acknowledge_step :: "jsval \<Rightarrow> unit js" where
  "acknowledge_step msg =
     andthen (this opts) (\<lambda>options.
     andthen (lift (get_prop options ''acknowledge'')) (\<lambda>flag.
     if flag = JBool True
     then andthen (this channel) (\<lambda>c.
          andthen (deref ''null'' c) (\<lambda>ch.
          andthen (call (Ack msg) (ack ch msg)) (\<lambda>_. ret ())))
     else ret ()))"

text \<open>
  The function handed to \<^verbatim>\<open>channel.consume\<close>, called by the driver once per
  delivery. Both the parse and the emission of \<^verbatim>\<open>message\<close> stand inside the
  \<^verbatim>\<open>try\<close> block.
\<close>

definition outgoingMessage :: "jsval \<Rightarrow> jsval \<Rightarrow> jsval" where
  "outgoingMessage jsonMessage msg = JObj (object_assign [''message'' \<mapsto> jsonMessage] msg)"

definition consume_callback :: "runtime \<Rightarrow> jsval \<Rightarrow> unit js" where
  "consume_callback rt msg =
     try_catch_finally
       (andthen (lift (parse_body rt msg)) (\<lambda>jsonMessage.
        andthen (emit ''message'' (outgoingMessage jsonMessage msg)) (\<lambda>_.
        ret ())))
       (\<lambda>e. andthen (emit ''error'' (JErr (JsError ''SyntaxError'' (emessage e)))) (\<lambda>_.
            ret ()))
       (acknowledge_step msg)"

text \<open>
  The driver hands deliveries over one at a time; an error that escapes one invocation
  does not keep the next from being made. The trace of a run of deliveries:
\<close>

fun deliveries :: "runtime \<Rightarrow> jsval list \<Rightarrow> client \<Rightarrow> action list" where
  "deliveries rt [] st = []"
| "deliveries rt (msg # msgs) st =
     (case consume_callback rt msg st of (r, st1, t) \<Rightarrow> t @ deliveries rt msgs st1)"

subsection \<open>pushToTopic\<close>

definition pushToTopic :: "runtime \<Rightarrow> jsval \<Rightarrow> bool js" where
  "pushToTopic rt message =
     andthen (this channel) (\<lambda>c.
     case c of
       None \<Rightarrow>
         andthen (emit ''error''
                    (JStr ''No open communication channel found. Was the connection to the message queue server successful?'')) (\<lambda>_.
         ret False)
     | Some ch \<Rightarrow>
         andthen (exchange_field ''name'') (\<lambda>xname.
         andthen (this topic) (\<lambda>tp.
         andthen (lift (Buffer_from rt message)) (\<lambda>bytes.
         andthen (call (Publish xname tp (JBuf bytes)) (publish ch xname tp (JBuf bytes))) (\<lambda>result.
         andthen (emit ''system'' (JObj [''pushResult'' \<mapsto> result, ''message'' \<mapsto> message])) (\<lambda>_.
         ret True))))))"

text \<open>
  How a \<^verbatim>\<open>try\<close> statement ends: with the error of its \<^verbatim>\<open>finally\<close> block when that
  one throws, and else with the error still pending, if any.
\<close>

definition settle :: "js_error + 'a \<Rightarrow> js_error + 'b \<Rightarrow> js_error + unit" where
  "settle fin pending =
     (case fin of
        Inl e3 \<Rightarrow> Inl e3
      | Inr u \<Rightarrow> (case pending of Inl e2 \<Rightarrow> Inl e2 | Inr v \<Rightarrow> Inr ()))"

section \<open>Reading a trace\<close>

fun is_ack :: "action \<Rightarrow> bool" where
  "is_ack (Ack m) = True"
| "is_ack a = False"

fun is_publish :: "action \<Rightarrow> bool" where
  "is_publish (Publish x k b) = True"
| "is_publish a = False"

fun is_consume :: "action \<Rightarrow> bool" where
  "is_consume (Consume q) = True"
| "is_consume a = False"

fun is_emit :: "string \<Rightarrow> action \<Rightarrow> bool" where
  "is_emit name (Emit n p) = (n = name)"
| "is_emit name a = False"

text \<open>The four broker operations of the setup sequence.\<close>

fun is_setup :: "action \<Rightarrow> bool" where
  "is_setup CreateChannel = True"
| "is_setup (AssertExchange x t) = True"
| "is_setup (AssertQueue q) = True"
| "is_setup (BindQueue q x k) = True"
| "is_setup a = False"

text \<open>
  The setup operations and the \<^verbatim>\<open>system\<close> events of a trace, in their order.
\<close>

definition setup_events :: "action list \<Rightarrow> action list" where
  "setup_events t = filter (\<lambda>a. is_setup a \<or> is_emit ''system'' a) t"

definition result_of :: "(js_error + 'a) \<times> client \<times> action list \<Rightarrow> js_error + 'a" where
  "result_of out = fst out"

definition client_of :: "(js_error + 'a) \<times> client \<times> action list \<Rightarrow> client" where
  "client_of out = fst (snd out)"

definition trace_of :: "(js_error + 'a) \<times> client \<times> action list \<Rightarrow> action list" where
  "trace_of out = snd (snd out)"

text \<open>An emission returns when no listener throws and the event is not an unheard error.\<close>

definition returns :: "(js_error + 'a) \<times> client \<times> action list \<Rightarrow> bool" where
  "returns out = (case fst out of Inl e \<Rightarrow> False | Inr x \<Rightarrow> True)"

section \<open>The collaborators of the unit tests\<close>

text \<open>
  The mocks of \<^verbatim>\<open>src/tests/unit/amqp.spec.js\<close>: a broker that accepts every call, and
  the configuration the tests connect with. The built-ins are cut down to what the
  examples below feed them.
\<close>

definition mock_channel :: amqp_channel where
  "mock_channel =
     \<lparr>assertExchange = (\<lambda>n t. Inr Undefined),
      assertQueue = (\<lambda>q. Inr (JStr ''assert success'')),
      bindQueue = (\<lambda>q x k. Inr (JStr ''bind success'')),
      consume = (\<lambda>q. Inr (JStr ''hello'')),
      ack = (\<lambda>m. Inr (JStr ''ack success'')),
      publish = (\<lambda>x k b. Inr (JStr ''publish success''))\<rparr>"

definition mock_connection :: amqp_connection where
  "mock_connection = \<lparr>createChannel = Inr mock_channel\<rparr>"

definition mock_configuration :: jsval where
  "mock_configuration =
     JObj [''protocol'' \<mapsto> JStr ''amqp'', ''port'' \<mapsto> JNum 5672,
           ''exchange'' \<mapsto> JObj [''name'' \<mapsto> JStr ''pillar'', ''type'' \<mapsto> JStr ''topic'']]"

definition mock_runtime :: runtime where
  "mock_runtime =
     \<lparr>JSON_parse = (\<lambda>s. if s = ''1'' then Inr (JNum 1)
                         else if s = ''true'' then Inr (JBool True)
                         else Inl (JsError ''SyntaxError'' ''Unexpected token'')),
      toString = (\<lambda>v. case v of JBuf b \<Rightarrow> Inr b | JStr s \<Rightarrow> Inr s
                       | _ \<Rightarrow> Inr ''[object Object]''),
      Buffer_from = (\<lambda>v. case v of JStr s \<Rightarrow> Inr s | JBuf b \<Rightarrow> Inr b
                         | _ \<Rightarrow> Inl (JsError ''TypeError'' ''The first argument must be of type string''))\<rparr>"

text \<open>A listener that returns, and one that throws.\<close>

definition quiet :: listener where
  "quiet payload = None"

definition failing :: listener where
  "failing payload = Some (JsError ''Error'' ''boom'')"

text \<open>
  The client of the tests, \<^verbatim>\<open>new AMQP(mqConnection, 'anything')\<close>, with the options
  \<open>os\<close> and the listeners \<open>ls\<close>, before and after the broker has accepted the setup.
\<close>

definition fresh_client :: "jsval \<Rightarrow> (string \<times> listener) list \<Rightarrow> client" where
  "fresh_client os ls =
     \<lparr>channel = None, connection = None, mqConnection = None,
      topic = JStr ''anything'', configuration = mock_configuration,
      opts = os, listeners = ls\<rparr>"

definition ready_client :: "jsval \<Rightarrow> (string \<times> listener) list \<Rightarrow> client" where
  "ready_client os ls =
     \<lparr>channel = Some mock_channel, connection = Some mock_connection,
      mqConnection = Some mock_connection,
      topic = JStr ''anything'', configuration = mock_configuration,
      opts = os, listeners = ls\<rparr>"

text \<open>
  A delivery as the driver builds it: the fields \<^verbatim>\<open>fields\<close>, \<^verbatim>\<open>properties\<close> and
  \<^verbatim>\<open>content\<close>, the body a buffer.
\<close>

definition delivery :: "string \<Rightarrow> jsval" where
  "delivery body =
     JObj [''fields'' \<mapsto> JObj [''routingKey'' \<mapsto> JStr ''anything''],
           ''properties'' \<mapsto> JObj Map.empty,
           ''content'' \<mapsto> JBuf body]"

definition no_acknowledge :: jsval where
  "no_acknowledge = JObj [''consume'' \<mapsto> JBool True, ''acknowledge'' \<mapsto> JBool False]"

definition only_consume :: jsval where
  "only_consume = JObj [''consume'' \<mapsto> JBool True]"

definition only_acknowledge :: jsval where
  "only_acknowledge = JObj [''acknowledge'' \<mapsto> JBool True]"

definition mock_exchange :: jsval where
  "mock_exchange = JObj [''name'' \<mapsto> JStr ''pillar'', ''type'' \<mapsto> JStr ''topic'']"

text \<open>Listeners under which an emission of \<^verbatim>\<open>message\<close> throws and one of \<^verbatim>\<open>error\<close> returns.\<close>

definition listening :: "(string \<times> listener) list" where
  "listening = [(''message'', failing), (''error'', quiet)]"

section \<open>How the computations compose\<close>

lemmas js_defs = ret_def throw_def lift_def this_def assign_def call_def andthen_def deref_def

lemmas out_defs = result_of_def client_of_def trace_of_def returns_def

lemma emit_shape: "\<exists>r. emit name payload st = (r, st, [Emit name payload])"
  by (simp add: emit_def)

lemma emit_cases:
  obtains e where "emit name payload st = (Inl e, st, [Emit name payload])"
  | b where "emit name payload st = (Inr b, st, [Emit name payload])"
proof -
  from emit_shape [of name payload st]
  obtain r where r: "emit name payload st = (r, st, [Emit name payload])" ..
  show thesis using that r by (cases r) auto
qed

text \<open>
  When an emission returns: the event has a listener and none of them throws, or it has
  none and is not \<^verbatim>\<open>error\<close>.
\<close>

lemma emit_returns_iff:
  "returns (emit name payload st) \<longleftrightarrow>
     (if listeners_of st name = [] then name \<noteq> ''error''
      else run_listeners (listeners_of st name) payload = None)"
  by (simp add: returns_def emit_def emit_result_def split: list.splits option.splits)

section \<open>The consume callback\<close>

lemma acknowledge_step_on:
  assumes "get_prop (opts st) ''acknowledge'' = Inr (JBool True)" and "channel st = Some ch"
  shows "acknowledge_step msg st =
           (case ack ch msg of Inl e \<Rightarrow> Inl e | Inr v \<Rightarrow> Inr (), st, [Ack msg])"
  using assms by (simp add: acknowledge_step_def js_defs split: sum.splits)

lemma acknowledge_step_off:
  assumes "get_prop (opts st) ''acknowledge'' \<noteq> Inr (JBool True)"
  shows "\<exists>r. acknowledge_step msg st = (r, st, [])"
  using assms by (simp add: acknowledge_step_def js_defs split: sum.splits)

lemma acknowledge_step_shape:
  "\<exists>r t. acknowledge_step msg st = (r, st, t) \<and> (t = [] \<or> t = [Ack msg])"
  by (simp add: acknowledge_step_def js_defs split: sum.splits option.splits)

text \<open>The three ways through the callback: the parse throws, \<dots>\<close>

lemma consume_callback_parse_error:
  assumes "parse_body rt msg = Inl e"
  shows "consume_callback rt msg st =
           (settle (result_of (acknowledge_step msg st))
              (result_of (emit ''error'' (JErr (JsError ''SyntaxError'' (emessage e))) st)),
            st,
            Emit ''error'' (JErr (JsError ''SyntaxError'' (emessage e))) #
              trace_of (acknowledge_step msg st))"
proof -
  from acknowledge_step_shape [of msg st]
  obtain r t where a: "acknowledge_step msg st = (r, st, t)" by blast
  show ?thesis
    by (rule emit_cases [of "''error''" "JErr (JsError ''SyntaxError'' (emessage e))" st])
       (simp_all add: consume_callback_def try_catch_finally_def js_defs out_defs settle_def
          assms a split: sum.splits)
qed

text \<open>\<dots> the parse and the emission of \<^verbatim>\<open>message\<close> both return, \<dots>\<close>

lemma consume_callback_parsed:
  assumes "parse_body rt msg = Inr j"
      and "emit ''message'' (outgoingMessage j msg) st = (Inr b, st, tm)"
  shows "consume_callback rt msg st =
           (settle (result_of (acknowledge_step msg st)) (Inr ()),
            st,
            Emit ''message'' (outgoingMessage j msg) # trace_of (acknowledge_step msg st))"
proof -
  from acknowledge_step_shape [of msg st]
  obtain r t where a: "acknowledge_step msg st = (r, st, t)" by blast
  show ?thesis
    by (rule emit_cases [of "''message''" "outgoingMessage j msg" st])
       (simp_all add: consume_callback_def try_catch_finally_def js_defs out_defs settle_def
          assms a split: sum.splits)
qed

text \<open>\<dots> or the parse returns and a listener of \<^verbatim>\<open>message\<close> throws.\<close>

lemma consume_callback_listener_error:
  assumes "parse_body rt msg = Inr j"
      and "emit ''message'' (outgoingMessage j msg) st = (Inl e, st, tm)"
  shows "consume_callback rt msg st =
           (settle (result_of (acknowledge_step msg st))
              (result_of (emit ''error'' (JErr (JsError ''SyntaxError'' (emessage e))) st)),
            st,
            Emit ''message'' (outgoingMessage j msg) #
            Emit ''error'' (JErr (JsError ''SyntaxError'' (emessage e))) #
              trace_of (acknowledge_step msg st))"
proof -
  from acknowledge_step_shape [of msg st]
  obtain r t where a: "acknowledge_step msg st = (r, st, t)" by blast
  have m: "emit ''message'' (outgoingMessage j msg) st =
             (Inl e, st, [Emit ''message'' (outgoingMessage j msg)])"
    by (rule emit_cases [of "''message''" "outgoingMessage j msg" st]) (simp_all add: assms(2))
  show ?thesis
    by (rule emit_cases [of "''error''" "JErr (JsError ''SyntaxError'' (emessage e))" st])
       (simp_all add: consume_callback_def try_catch_finally_def js_defs out_defs settle_def
          assms(1) m a split: sum.splits)
qed

text \<open>The callback writes no field of the client.\<close>

lemma consume_callback_client: "fst (snd (consume_callback rt msg st)) = st"
proof (cases "parse_body rt msg")
  case (Inl e)
  then show ?thesis by (simp add: consume_callback_parse_error)
next
  case (Inr j)
  show ?thesis
    by (rule emit_cases [of "''message''" "outgoingMessage j msg" st])
       (simp_all add: consume_callback_parsed [OF Inr] consume_callback_listener_error [OF Inr])
qed

lemma parse_body_delivery:
  "parse_body mock_runtime (delivery body) = JSON_parse mock_runtime body"
  by (simp add: parse_body_def delivery_def mock_runtime_def)

lemma parse_body_delivery_1: "parse_body mock_runtime (delivery ''1'') = Inr (JNum 1)"
  by (simp add: parse_body_delivery) (simp add: mock_runtime_def)

lemma parse_body_delivery_not_json:
  "parse_body mock_runtime (delivery ''not-json'') =
     Inl (JsError ''SyntaxError'' ''Unexpected token'')"
  by (simp add: parse_body_delivery) (simp add: mock_runtime_def)

text \<open>
  C1. For every delivery whose body fails to parse (\<^verbatim>\<open>JSON.parse(msg.content.toString())\<close>
  throws \<open>e\<close>), handled on the channel the consumer was attached to, the callback's whole
  trace is one \<^verbatim>\<open>error\<close> event carrying a \<^verbatim>\<open>SyntaxError\<close> with the message of \<open>e\<close>,
  followed, when the \<^verbatim>\<open>acknowledge\<close> option is \<^verbatim>\<open>true\<close>, by exactly one
  acknowledgment of that delivery: there is no \<^verbatim>\<open>message\<close> event, and the
  acknowledgment is made whether or not the emission of \<^verbatim>\<open>error\<close> throws.
\<close>

theorem malformed_body_error_and_ack:
  assumes "parse_body rt msg = Inl e" and "channel st = Some ch"
  shows "trace_of (consume_callback rt msg st) =
           Emit ''error'' (JErr (JsError ''SyntaxError'' (emessage e))) #
           (if get_prop (opts st) ''acknowledge'' = Inr (JBool True) then [Ack msg] else [])"
proof (cases "get_prop (opts st) ''acknowledge'' = Inr (JBool True)")
  case True
  with assms show ?thesis
    by (simp add: consume_callback_parse_error acknowledge_step_on trace_of_def)
next
  case False
  from acknowledge_step_off [OF False, of msg]
  obtain r where "acknowledge_step msg st = (r, st, [])" ..
  with assms False show ?thesis
    by (simp add: consume_callback_parse_error trace_of_def)
qed

theorem malformed_body_error_and_ack_witness:
  "parse_body mock_runtime (delivery ''not-json'') =
     Inl (JsError ''SyntaxError'' ''Unexpected token'') \<and>
   channel (ready_client default_opts []) = Some mock_channel \<and>
   trace_of (consume_callback mock_runtime (delivery ''not-json'')
               (ready_client default_opts [])) =
     [Emit ''error'' (JErr (JsError ''SyntaxError'' ''Unexpected token'')),
      Ack (delivery ''not-json'')]"
proof -
  note p = parse_body_delivery_not_json
  have c: "channel (ready_client default_opts []) = Some mock_channel"
    by (simp add: ready_client_def)
  have f: "get_prop (opts (ready_client default_opts [])) ''acknowledge'' = Inr (JBool True)"
    by (simp add: ready_client_def default_opts_def)
  from malformed_body_error_and_ack [OF p c] f p c show ?thesis by simp
qed

lemma consume_callback_no_ack:
  assumes "get_prop (opts st) ''acknowledge'' \<noteq> Inr (JBool True)"
  shows "filter is_ack (snd (snd (consume_callback rt msg st))) = []"
proof -
  from acknowledge_step_off [OF assms, of msg]
  obtain r where r: "acknowledge_step msg st = (r, st, [])" ..
  show ?thesis
  proof (cases "parse_body rt msg")
    case (Inl e)
    then show ?thesis by (simp add: consume_callback_parse_error r trace_of_def)
  next
    case (Inr j)
    show ?thesis
      by (rule emit_cases [of "''message''" "outgoingMessage j msg" st])
         (simp_all add: consume_callback_parsed [OF Inr] consume_callback_listener_error [OF Inr]
            r trace_of_def)
  qed
qed

lemma deliveries_no_ack:
  assumes "get_prop (opts st) ''acknowledge'' \<noteq> Inr (JBool True)"
  shows "filter is_ack (deliveries rt msgs st) = []"
  using assms
proof (induction msgs)
  case Nil
  then show ?case by simp
next
  case (Cons msg msgs)
  obtain r st1 t where c: "consume_callback rt msg st = (r, st1, t)"
    by (cases "consume_callback rt msg st") auto
  from consume_callback_client [of rt msg st] c have st1: "st1 = st" by simp
  from consume_callback_no_ack [OF Cons.prems, of rt msg] c have "filter is_ack t = []" by simp
  with Cons c st1 show ?case by simp
qed

text \<open>
  C8. When the \<^verbatim>\<open>acknowledge\<close> option is not the boolean \<^verbatim>\<open>true\<close> (so, when it is
  \<^verbatim>\<open>false\<close>), no run of deliveries, parsed or not, ever calls the channel's
  \<^verbatim>\<open>ack\<close>.
\<close>

theorem no_acknowledge_no_ack:
  assumes "get_prop (opts st) ''acknowledge'' \<noteq> Inr (JBool True)"
  shows "filter is_ack (deliveries rt msgs st) = []"
  using assms by (rule deliveries_no_ack)

theorem no_acknowledge_no_ack_witness:
  "get_prop (opts (ready_client no_acknowledge [(''error'', quiet)])) ''acknowledge'' =
     Inr (JBool False) \<and>
   filter is_ack (deliveries mock_runtime [delivery ''1'', delivery ''not-json'']
     (ready_client no_acknowledge [(''error'', quiet)])) = [] \<and>
   deliveries mock_runtime [delivery ''1'', delivery ''not-json'']
     (ready_client no_acknowledge [(''error'', quiet)]) =
     [Emit ''message'' (outgoingMessage (JNum 1) (delivery ''1'')),
      Emit ''error'' (JErr (JsError ''SyntaxError'' ''Unexpected token''))]"
proof -
  let ?st = "ready_client no_acknowledge [(''error'', quiet)]"
  have f: "get_prop (opts ?st) ''acknowledge'' = Inr (JBool False)"
    by (simp add: ready_client_def no_acknowledge_def)
  then have f': "get_prop (opts ?st) ''acknowledge'' \<noteq> Inr (JBool True)" by simp
  have a: "acknowledge_step msg ?st = (Inr (), ?st, [])" for msg
    by (simp add: acknowledge_step_def js_defs ready_client_def no_acknowledge_def)
  have m: "emit ''message'' payload ?st = (Inr False, ?st, [Emit ''message'' payload])"
    for payload
    by (simp add: emit_def emit_result_def listeners_of_def ready_client_def)
  have d: "deliveries mock_runtime [delivery ''1'', delivery ''not-json''] ?st =
     [Emit ''message'' (outgoingMessage (JNum 1) (delivery ''1'')),
      Emit ''error'' (JErr (JsError ''SyntaxError'' ''Unexpected token''))]"
    by (simp add: consume_callback_parsed [OF parse_body_delivery_1 m]
        consume_callback_parse_error [OF parse_body_delivery_not_json] a trace_of_def)
  from no_acknowledge_no_ack [OF f', of mock_runtime "[delivery ''1'', delivery ''not-json'']"] f d
  show ?thesis by simp
qed

lemma own_prop_outgoingMessage:
  "own_prop (outgoingMessage j msg) k =
     (case own_prop msg k of
        Some v \<Rightarrow> Some v
      | None \<Rightarrow> if k = ''message'' then Some j else None)"
  by (cases msg) (simp_all add: outgoingMessage_def object_assign_def map_add_def
      split: option.splits)

lemma consume_callback_message_events:
  assumes "parse_body rt msg = Inr j"
  shows "filter (is_emit ''message'') (snd (snd (consume_callback rt msg st))) =
           [Emit ''message'' (outgoingMessage j msg)]"
proof -
  from acknowledge_step_shape [of msg st]
  obtain r t where a: "acknowledge_step msg st = (r, st, t)" and t: "t = [] \<or> t = [Ack msg]"
    by blast
  from t have f: "filter (is_emit ''message'') t = []" by auto
  show ?thesis
    by (rule emit_cases [of "''message''" "outgoingMessage j msg" st])
       (simp_all add: consume_callback_parsed [OF assms]
          consume_callback_listener_error [OF assms] a f trace_of_def)
qed

text \<open>
  When the delivery has a field \<^verbatim>\<open>message\<close> of its own, that field is what the payload
  carries: the delivery is assigned over the new object. A delivery of the driver has the
  fields \<^verbatim>\<open>fields\<close>, \<^verbatim>\<open>properties\<close> and \<^verbatim>\<open>content\<close> only.
\<close>

lemma delivery_field_overrides:
  assumes "own_prop msg ''message'' = Some v"
  shows "own_prop (outgoingMessage jsonMessage msg) ''message'' = Some v"
  using assms by (simp add: own_prop_outgoingMessage)

text \<open>
  C3. For every delivery whose body parses to \<open>jsonMessage\<close>, and which has no field
  \<^verbatim>\<open>message\<close> of its own before it is decoded, exactly one \<^verbatim>\<open>message\<close> event is
  emitted; the \<^verbatim>\<open>message\<close> field of its payload is \<open>jsonMessage\<close>, and every other
  field of the payload is the delivery's field of that name, present or absent alike.
\<close>

theorem parsed_body_message_payload:
  assumes "parse_body rt msg = Inr jsonMessage" and "own_prop msg ''message'' = None"
  shows "filter (is_emit ''message'') (trace_of (consume_callback rt msg st)) =
           [Emit ''message'' (outgoingMessage jsonMessage msg)] \<and>
         own_prop (outgoingMessage jsonMessage msg) ''message'' = Some jsonMessage \<and>
         (\<forall>k. k \<noteq> ''message'' \<longrightarrow>
              own_prop (outgoingMessage jsonMessage msg) k = own_prop msg k)"
  using assms consume_callback_message_events [OF assms(1), of st]
  by (simp add: trace_of_def own_prop_outgoingMessage split: option.splits)

theorem parsed_body_message_payload_witness:
  "parse_body mock_runtime (delivery ''1'') = Inr (JNum 1) \<and>
   own_prop (delivery ''1'') ''message'' = None \<and>
   filter (is_emit ''message'')
     (trace_of (consume_callback mock_runtime (delivery ''1'') (ready_client default_opts []))) =
     [Emit ''message'' (outgoingMessage (JNum 1) (delivery ''1''))] \<and>
   own_prop (outgoingMessage (JNum 1) (delivery ''1'')) ''message'' = Some (JNum 1) \<and>
   own_prop (outgoingMessage (JNum 1) (delivery ''1'')) ''content'' = Some (JBuf ''1'') \<and>
   own_prop (outgoingMessage (JNum 1) (delivery ''1'')) ''properties'' = Some (JObj Map.empty)"
proof -
  have o: "own_prop (delivery ''1'') ''message'' = None"
    by (simp add: delivery_def)
  have c: "own_prop (delivery ''1'') ''content'' = Some (JBuf ''1'')"
    and p: "own_prop (delivery ''1'') ''properties'' = Some (JObj Map.empty)"
    by (simp_all add: delivery_def)
  from parsed_body_message_payload [OF parse_body_delivery_1 o, of "ready_client default_opts []"]
    parse_body_delivery_1 o c p
  show ?thesis by simp
qed

lemma emit_listening_message:
  "emit ''message'' payload (ready_client os listening) =
     (Inl (JsError ''Error'' ''boom''), ready_client os listening, [Emit ''message'' payload])"
  by (simp add: emit_def emit_result_def listeners_of_def ready_client_def listening_def
      failing_def)

lemma emit_listening_error:
  "emit ''error'' payload (ready_client os listening) =
     (Inr True, ready_client os listening, [Emit ''error'' payload])"
  by (simp add: emit_def emit_result_def listeners_of_def ready_client_def listening_def
      quiet_def)

lemma acknowledge_step_ready:
  "acknowledge_step msg (ready_client default_opts ls) =
     (Inr (), ready_client default_opts ls, [Ack msg])"
  by (simp add: acknowledge_step_def js_defs ready_client_def default_opts_def mock_channel_def)

text \<open>
  C4, as the source has it. The emission of \<^verbatim>\<open>message\<close> stands inside the \<^verbatim>\<open>try\<close>
  block, so an error \<open>e\<close> thrown by a listener during that emission is caught by the same
  \<^verbatim>\<open>catch\<close> as a parse failure: an \<^verbatim>\<open>error\<close> event carrying a \<^verbatim>\<open>SyntaxError\<close>
  with the message of \<open>e\<close> is emitted, the \<^verbatim>\<open>finally\<close> block runs, and the callback
  ends as the \<^verbatim>\<open>finally\<close> block and the emission of \<^verbatim>\<open>error\<close> end: it returns when
  both return.
\<close>

theorem listener_error_reaches_catch:
  assumes "parse_body rt msg = Inr jsonMessage"
      and "result_of (emit ''message'' (outgoingMessage jsonMessage msg) st) = Inl e"
  shows "trace_of (consume_callback rt msg st) =
           Emit ''message'' (outgoingMessage jsonMessage msg) #
           Emit ''error'' (JErr (JsError ''SyntaxError'' (emessage e))) #
           trace_of (acknowledge_step msg st) \<and>
         result_of (consume_callback rt msg st) =
           settle (result_of (acknowledge_step msg st))
             (result_of (emit ''error'' (JErr (JsError ''SyntaxError'' (emessage e))) st))"
proof -
  have m: "emit ''message'' (outgoingMessage jsonMessage msg) st =
             (Inl e, st, [Emit ''message'' (outgoingMessage jsonMessage msg)])"
    using assms(2)
    by (cases rule: emit_cases [of "''message''" "outgoingMessage jsonMessage msg" st])
       (simp_all add: result_of_def)
  show ?thesis
    by (simp add: consume_callback_listener_error [OF assms(1) m] trace_of_def result_of_def)
qed

theorem listener_error_reaches_catch_witness:
  "parse_body mock_runtime (delivery ''1'') = Inr (JNum 1) \<and>
   result_of (emit ''message'' (outgoingMessage (JNum 1) (delivery ''1''))
                (ready_client default_opts listening)) = Inl (JsError ''Error'' ''boom'') \<and>
   trace_of (consume_callback mock_runtime (delivery ''1'') (ready_client default_opts listening)) =
     [Emit ''message'' (outgoingMessage (JNum 1) (delivery ''1'')),
      Emit ''error'' (JErr (JsError ''SyntaxError'' ''boom'')),
      Ack (delivery ''1'')] \<and>
   result_of (consume_callback mock_runtime (delivery ''1'') (ready_client default_opts listening)) =
     Inr ()"
proof -
  have m: "result_of (emit ''message'' (outgoingMessage (JNum 1) (delivery ''1''))
                (ready_client default_opts listening)) = Inl (JsError ''Error'' ''boom'')"
    by (simp add: emit_listening_message result_of_def)
  from listener_error_reaches_catch [OF parse_body_delivery_1 m] parse_body_delivery_1 m
  show ?thesis
    by (simp add: emit_listening_error acknowledge_step_ready out_defs settle_def)
qed

text \<open>
  C4, as it is stated: that such an error escapes the callback uncaught fails on the client of the
  tests with a throwing listener of \<^verbatim>\<open>message\<close>: the parse returns, the emission throws
  \<^verbatim>\<open>boom\<close>, and the callback does not end with that error but emits an \<^verbatim>\<open>error\<close>
  event for it.
\<close>

theorem listener_error_escapes_counterexample:
  "parse_body mock_runtime (delivery ''1'') = Inr (JNum 1) \<and>
   result_of (emit ''message'' (outgoingMessage (JNum 1) (delivery ''1''))
                (ready_client default_opts listening)) = Inl (JsError ''Error'' ''boom'') \<and>
   result_of (consume_callback mock_runtime (delivery ''1'') (ready_client default_opts listening)) \<noteq>
     Inl (JsError ''Error'' ''boom'') \<and>
   filter (is_emit ''error'')
     (trace_of (consume_callback mock_runtime (delivery ''1'') (ready_client default_opts listening))) =
     [Emit ''error'' (JErr (JsError ''SyntaxError'' ''boom''))]"
proof -
  have c: "consume_callback mock_runtime (delivery ''1'') (ready_client default_opts listening) =
      (Inr (), ready_client default_opts listening,
       [Emit ''message'' (outgoingMessage (JNum 1) (delivery ''1'')),
        Emit ''error'' (JErr (JsError ''SyntaxError'' ''boom'')),
        Ack (delivery ''1'')])"
    by (simp add: consume_callback_listener_error [OF parse_body_delivery_1 emit_listening_message]
        emit_listening_error acknowledge_step_ready out_defs settle_def)
  show ?thesis
    by (simp add: c parse_body_delivery_1 emit_listening_message out_defs)
qed

section \<open>pushToTopic\<close>

text \<open>
  With no listener of \<^verbatim>\<open>error\<close> the emission throws, and the promise of
  \<^verbatim>\<open>pushToTopic\<close> is rejected with the unhandled error.
\<close>

lemma push_without_listener:
  assumes "channel st = None" and "listeners_of st ''error'' = []"
  shows "result_of (pushToTopic rt message st) = Inl (JsError ''Error'' ''Unhandled error.'')"
  using assms
  by (simp add: pushToTopic_def js_defs out_defs emit_def emit_result_def unhandled_def)

text \<open>The constructor hands over a client with no channel and no listener.\<close>

lemma constructor_no_listener:
  assumes "constructor cfg tp os = (Inr st, t)"
  shows "channel st = None \<and> listeners_of st name = []"
  using assms by (auto simp: constructor_def listeners_of_def split: if_splits)

text \<open>
  C5, as the source has it. Called while \<^verbatim>\<open>this.channel\<close> is \<^verbatim>\<open>null\<close>,
  \<^verbatim>\<open>pushToTopic\<close> emits exactly one event, the \<^verbatim>\<open>error\<close> event whose payload is the
  string written below, and never calls the transport's \<^verbatim>\<open>publish\<close>. It returns
  \<^verbatim>\<open>false\<close> when the emission returns, that is when the client has a listener of
  \<^verbatim>\<open>error\<close> and none of them throws; when the client has no listener of \<^verbatim>\<open>error\<close>,
  as a newly constructed one has, the emission throws and the call does not return: its
  promise is rejected.
\<close>

theorem push_without_channel:
  assumes "channel st = None"
  shows "trace_of (pushToTopic rt message st) =
           [Emit ''error''
              (JStr ''No open communication channel found. Was the connection to the message queue server successful?'')] \<and>
         filter is_publish (trace_of (pushToTopic rt message st)) = [] \<and>
         (returns (emit ''error''
                     (JStr ''No open communication channel found. Was the connection to the message queue server successful?'')
                     st) \<longrightarrow>
            result_of (pushToTopic rt message st) = Inr False) \<and>
         (listeners_of st ''error'' = [] \<longrightarrow> \<not> returns (pushToTopic rt message st))"
proof -
  let ?p = "JStr ''No open communication channel found. Was the connection to the message queue server successful?''"
  have t: "trace_of (pushToTopic rt message st) = [Emit ''error'' ?p]"
    by (rule emit_cases [of "''error''" ?p st])
       (simp_all add: pushToTopic_def js_defs out_defs assms)
  have r: "result_of (pushToTopic rt message st) = Inr False" if "returns (emit ''error'' ?p st)"
    using that
    by (cases rule: emit_cases [of "''error''" ?p st])
       (simp_all add: pushToTopic_def js_defs out_defs assms)
  have n: "\<not> returns (pushToTopic rt message st)" if "listeners_of st ''error'' = []"
    using push_without_listener [OF assms that, of rt message]
    by (simp add: out_defs)
  from t r n show ?thesis by simp
qed

theorem push_without_channel_witness:
  "channel (fresh_client default_opts [(''error'', quiet)]) = None \<and>
   returns (emit ''error''
     (JStr ''No open communication channel found. Was the connection to the message queue server successful?'')
     (fresh_client default_opts [(''error'', quiet)])) \<and>
   trace_of (pushToTopic mock_runtime (JStr ''hello!'')
               (fresh_client default_opts [(''error'', quiet)])) =
     [Emit ''error''
        (JStr ''No open communication channel found. Was the connection to the message queue server successful?'')] \<and>
   result_of (pushToTopic mock_runtime (JStr ''hello!'')
                (fresh_client default_opts [(''error'', quiet)])) = Inr False"
proof -
  let ?st = "fresh_client default_opts [(''error'', quiet)]"
  let ?p = "JStr ''No open communication channel found. Was the connection to the message queue server successful?''"
  have c: "channel ?st = None" by (simp add: fresh_client_def)
  have r: "returns (emit ''error'' ?p ?st)"
    by (simp add: emit_returns_iff listeners_of_def fresh_client_def quiet_def)
  from push_without_channel [OF c, of mock_runtime "JStr ''hello!''"] c r show ?thesis by simp
qed

text \<open>
  C5, as it is stated: that every such call returns \<^verbatim>\<open>false\<close> fails on the client the
  constructor has just made,
  \<^verbatim>\<open>new AMQP(mqConnection, 'anything').pushToTopic('hello!')\<close>. It has no channel and no
  listener of \<^verbatim>\<open>error\<close>; the one \<^verbatim>\<open>error\<close> event is emitted, the emission throws,
  and the call does not return \<^verbatim>\<open>false\<close>.
\<close>

theorem push_returns_false_counterexample:
  "constructor mock_configuration (JStr ''anything'') Undefined =
     (Inr (fresh_client default_opts []), [Connect mock_configuration]) \<and>
   channel (fresh_client default_opts []) = None \<and>
   trace_of (pushToTopic mock_runtime (JStr ''hello!'') (fresh_client default_opts [])) =
     [Emit ''error''
        (JStr ''No open communication channel found. Was the connection to the message queue server successful?'')] \<and>
   \<not> returns (pushToTopic mock_runtime (JStr ''hello!'') (fresh_client default_opts [])) \<and>
   result_of (pushToTopic mock_runtime (JStr ''hello!'') (fresh_client default_opts [])) \<noteq>
     Inr False"
proof -
  let ?st = "fresh_client default_opts []"
  have k: "constructor mock_configuration (JStr ''anything'') Undefined =
     (Inr ?st, [Connect mock_configuration])"
    by (simp add: constructor_def fresh_client_def mock_configuration_def)
  have c: "channel ?st = None" and l: "listeners_of ?st ''error'' = []"
    by (simp_all add: fresh_client_def listeners_of_def)
  have t: "trace_of (pushToTopic mock_runtime (JStr ''hello!'') ?st) =
     [Emit ''error''
        (JStr ''No open communication channel found. Was the connection to the message queue server successful?'')]"
    by (simp add: pushToTopic_def js_defs out_defs emit_def c split: sum.splits)
  from push_without_listener [OF c l, of mock_runtime "JStr ''hello!''"] k c t
  show ?thesis by (simp add: out_defs)
qed

text \<open>
  C6. Called on a client whose channel exists, with a configuration that names its
  exchange, a message \<^verbatim>\<open>Buffer.from\<close> encodes and a transport whose \<^verbatim>\<open>publish\<close>
  returns \<open>pushResult\<close>, \<^verbatim>\<open>pushToTopic\<close> calls \<^verbatim>\<open>publish\<close> exactly once, with the
  exchange name, the topic and the encoded bytes, then emits exactly one \<^verbatim>\<open>system\<close>
  event with the payload \<^verbatim>\<open>{ pushResult, message }\<close>, and returns \<^verbatim>\<open>true\<close> when no
  listener of \<^verbatim>\<open>system\<close> throws.
\<close>

theorem push_with_channel:
  assumes "channel st = Some ch"
      and "get_prop (configuration st) ''exchange'' = Inr ex"
      and "get_prop ex ''name'' = Inr xname"
      and "Buffer_from rt message = Inr bytes"
      and "publish ch xname (topic st) (JBuf bytes) = Inr pushResult"
  shows "trace_of (pushToTopic rt message st) =
           [Publish xname (topic st) (JBuf bytes),
            Emit ''system'' (JObj [''pushResult'' \<mapsto> pushResult, ''message'' \<mapsto> message])] \<and>
         (returns (emit ''system''
                     (JObj [''pushResult'' \<mapsto> pushResult, ''message'' \<mapsto> message]) st) \<longrightarrow>
            result_of (pushToTopic rt message st) = Inr True)"
  by (rule emit_cases [of "''system''"
        "JObj [''pushResult'' \<mapsto> pushResult, ''message'' \<mapsto> message]" st])
     (simp_all add: pushToTopic_def exchange_field_def js_defs out_defs assms)

theorem push_with_channel_witness:
  "channel (ready_client default_opts []) = Some mock_channel \<and>
   get_prop (configuration (ready_client default_opts [])) ''exchange'' =
     Inr (JObj [''name'' \<mapsto> JStr ''pillar'', ''type'' \<mapsto> JStr ''topic'']) \<and>
   get_prop (JObj [''name'' \<mapsto> JStr ''pillar'', ''type'' \<mapsto> JStr ''topic'']) ''name'' =
     Inr (JStr ''pillar'') \<and>
   Buffer_from mock_runtime (JStr ''hello!'') = Inr ''hello!'' \<and>
   publish mock_channel (JStr ''pillar'') (topic (ready_client default_opts [])) (JBuf ''hello!'') =
     Inr (JStr ''publish success'') \<and>
   trace_of (pushToTopic mock_runtime (JStr ''hello!'') (ready_client default_opts [])) =
     [Publish (JStr ''pillar'') (JStr ''anything'') (JBuf ''hello!''),
      Emit ''system'' (JObj [''pushResult'' \<mapsto> JStr ''publish success'',
                             ''message'' \<mapsto> JStr ''hello!''])] \<and>
   result_of (pushToTopic mock_runtime (JStr ''hello!'') (ready_client default_opts [])) = Inr True"
proof -
  let ?st = "ready_client default_opts []"
  have c: "channel ?st = Some mock_channel" by (simp add: ready_client_def)
  have x: "get_prop (configuration ?st) ''exchange'' =
     Inr (JObj [''name'' \<mapsto> JStr ''pillar'', ''type'' \<mapsto> JStr ''topic''])"
    by (simp add: ready_client_def mock_configuration_def)
  have n: "get_prop (JObj [''name'' \<mapsto> JStr ''pillar'', ''type'' \<mapsto> JStr ''topic'']) ''name'' =
     Inr (JStr ''pillar'')" by simp
  have b: "Buffer_from mock_runtime (JStr ''hello!'') = Inr ''hello!''"
    by (simp add: mock_runtime_def)
  have p: "publish mock_channel (JStr ''pillar'') (topic ?st) (JBuf ''hello!'') =
     Inr (JStr ''publish success'')" by (simp add: mock_channel_def)
  have t: "topic ?st = JStr ''anything''" by (simp add: ready_client_def)
  have r: "returns (emit ''system'' payload ?st)" for payload
    by (simp add: emit_returns_iff listeners_of_def ready_client_def)
  from push_with_channel [OF c x n b p] c x n b p t r show ?thesis by simp
qed

section \<open>The setup sequence\<close>

lemma connectToTopic_accepted:
  assumes "mqConnection st = Some conn"
      and "createChannel conn = Inr ch"
      and "get_prop (configuration st) ''exchange'' = Inr ex"
      and "get_prop ex ''name'' = Inr xname"
      and "get_prop ex ''type'' = Inr xtype"
      and "assertExchange ch xname xtype = Inr a"
      and "assertQueue ch (topic st) = Inr result"
      and "bindQueue ch (topic st) xname (topic st) = Inr b"
  shows "\<exists>r rest. connectToTopic st =
           (r, st\<lparr>connection := Some conn, channel := Some ch\<rparr>,
            [CreateChannel, ConnectionOn ''error'', ChannelOn ''error'',
             AssertExchange xname xtype, AssertQueue (topic st),
             BindQueue (topic st) xname (topic st), Emit ''system'' result] @ rest) \<and>
           (rest = [] \<or> rest = [Consume (topic st)])"
  using assms
  by (simp add: connectToTopic_def exchange_field_def js_defs emit_def split: sum.splits)


lemma connectToTopic_system_payload:
  assumes "Emit ''system'' p \<in> set (snd (snd (connectToTopic st)))"
  shows "\<exists>conn ch. mqConnection st = Some conn \<and> createChannel conn = Inr ch \<and>
           assertQueue ch (topic st) = Inr p"
  using assms
  by (simp add: connectToTopic_def exchange_field_def js_defs emit_def
       split: sum.splits option.splits if_splits)

lemma connectToTopic_no_consume:
  assumes "get_prop (opts st) ''consume'' \<noteq> Inr (JBool True)"
  shows "filter is_consume (snd (snd (connectToTopic st))) = []"
  using assms
  by (simp add: connectToTopic_def exchange_field_def js_defs emit_def
       split: sum.splits option.splits)

lemma connectToTopic_opts: "opts (fst (snd (connectToTopic st))) = opts st"
  by (simp add: connectToTopic_def exchange_field_def js_defs emit_def
       split: sum.splits option.splits)

lemma connectToTopic_topic: "topic (fst (snd (connectToTopic st))) = topic st"
  by (simp add: connectToTopic_def exchange_field_def js_defs emit_def
       split: sum.splits option.splits)

lemma connect_settled_rejected:
  "connect_settled (Inl e) st = 
     (case emit_result ''error'' (JStr (emessage e)) st of Inl e2 \<Rightarrow> Inl e2 | Inr b \<Rightarrow> Inr (), st, [Emit ''error'' (JStr (emessage e))])"
  by (simp add: connect_settled_def promise_catch_def js_defs emit_def split: sum.splits)

lemma connect_settled_resolved:
  "\<exists>r rest. connect_settled (Inr conn) st =
      (r, fst (snd (connectToTopic (st\<lparr>mqConnection := Some conn\<rparr>))),
       snd (snd (connectToTopic (st\<lparr>mqConnection := Some conn\<rparr>))) @ rest) \<and>
      (rest = [] \<or> (\<exists>m. rest = [Emit ''error'' (JStr m)]))"
proof -
  obtain r0 st0 t0 where c: "connectToTopic (st\<lparr>mqConnection := Some conn\<rparr>) = (r0, st0, t0)"
    by (cases "connectToTopic (st\<lparr>mqConnection := Some conn\<rparr>)") auto
  show ?thesis
    by (cases r0) (simp_all add: connect_settled_def promise_catch_def js_defs emit_def c
        split: sum.splits)
qed



text \<open>
  When the configuration names its exchange and the broker accepts every step, the trace
  of the whole chain begins with the setup sequence and the \<^verbatim>\<open>system\<close> event; what
  follows holds neither a setup operation nor a \<^verbatim>\<open>system\<close> event.
\<close>

lemma setup_accepted:
  assumes "createChannel conn = Inr ch"
      and "get_prop (configuration st) ''exchange'' = Inr ex"
      and "get_prop ex ''name'' = Inr xname"
      and "get_prop ex ''type'' = Inr xtype"
      and "assertExchange ch xname xtype = Inr a"
      and "assertQueue ch (topic st) = Inr result"
      and "bindQueue ch (topic st) xname (topic st) = Inr b"
  shows "\<exists>rest. trace_of (connect_settled (Inr conn) st) =
           [CreateChannel, ConnectionOn ''error'', ChannelOn ''error'',
            AssertExchange xname xtype, AssertQueue (topic st),
            BindQueue (topic st) xname (topic st), Emit ''system'' result] @ rest \<and>
           setup_events rest = []"
proof -
  let ?st = "st\<lparr>mqConnection := Some conn\<rparr>"
  have "\<exists>r rest. connectToTopic ?st =
           (r, ?st\<lparr>connection := Some conn, channel := Some ch\<rparr>,
            [CreateChannel, ConnectionOn ''error'', ChannelOn ''error'',
             AssertExchange xname xtype, AssertQueue (topic ?st),
             BindQueue (topic ?st) xname (topic ?st), Emit ''system'' result] @ rest) \<and>
           (rest = [] \<or> rest = [Consume (topic ?st)])"
    by (rule connectToTopic_accepted [where ex = ex and a = a and b = b]) (simp_all add: assms)
  then obtain r rest where
    c: "connectToTopic ?st =
           (r, ?st\<lparr>connection := Some conn, channel := Some ch\<rparr>,
            [CreateChannel, ConnectionOn ''error'', ChannelOn ''error'',
             AssertExchange xname xtype, AssertQueue (topic ?st),
             BindQueue (topic ?st) xname (topic ?st), Emit ''system'' result] @ rest)"
    and rest: "rest = [] \<or> rest = [Consume (topic ?st)]" by blast
  from connect_settled_resolved [of conn st] obtain r' rest' where
    s: "connect_settled (Inr conn) st =
      (r', fst (snd (connectToTopic ?st)), snd (snd (connectToTopic ?st)) @ rest')"
    and rest': "rest' = [] \<or> (\<exists>m. rest' = [Emit ''error'' (JStr m)])" by blast
  from rest rest' have "setup_events (rest @ rest') = []" by (auto simp: setup_events_def)
  with s c show ?thesis by (simp add: trace_of_def)
qed

text \<open>The channel is there once the setup is accepted.\<close>

lemma setup_accepted_channel:
  assumes "createChannel conn = Inr ch"
      and "get_prop (configuration st) ''exchange'' = Inr ex"
      and "get_prop ex ''name'' = Inr xname"
      and "get_prop ex ''type'' = Inr xtype"
      and "assertExchange ch xname xtype = Inr a"
      and "assertQueue ch (topic st) = Inr result"
      and "bindQueue ch (topic st) xname (topic st) = Inr b"
  shows "channel (client_of (connect_settled (Inr conn) st)) = Some ch"
proof -
  let ?st = "st\<lparr>mqConnection := Some conn\<rparr>"
  have "\<exists>r rest. connectToTopic ?st =
           (r, ?st\<lparr>connection := Some conn, channel := Some ch\<rparr>,
            [CreateChannel, ConnectionOn ''error'', ChannelOn ''error'',
             AssertExchange xname xtype, AssertQueue (topic ?st),
             BindQueue (topic ?st) xname (topic ?st), Emit ''system'' result] @ rest) \<and>
           (rest = [] \<or> rest = [Consume (topic ?st)])"
    by (rule connectToTopic_accepted [where ex = ex and a = a and b = b]) (simp_all add: assms)
  with connect_settled_resolved [of conn st] show ?thesis
    by (auto simp: client_of_def)
qed


text \<open>The client of the tests is ready once the mocked broker has answered.\<close>

lemma connect_settled_mock:
  "connect_settled (Inr mock_connection) (fresh_client default_opts []) =
     (Inr (), ready_client default_opts [],
      [CreateChannel, ConnectionOn ''error'', ChannelOn ''error'',
       AssertExchange (JStr ''pillar'') (JStr ''topic''), AssertQueue (JStr ''anything''),
       BindQueue (JStr ''anything'') (JStr ''pillar'') (JStr ''anything''),
       Emit ''system'' (JStr ''assert success''), Consume (JStr ''anything'')])"
  by (simp add: connect_settled_def promise_catch_def connectToTopic_def exchange_field_def
      js_defs emit_def emit_result_def listeners_of_def fresh_client_def ready_client_def
      mock_connection_def mock_channel_def mock_configuration_def default_opts_def)

lemma mock_accepts:
  "createChannel mock_connection = Inr mock_channel"
  "get_prop (configuration (fresh_client os ls)) ''exchange'' = Inr mock_exchange"
  "get_prop mock_exchange ''name'' = Inr (JStr ''pillar'')"
  "get_prop mock_exchange ''type'' = Inr (JStr ''topic'')"
  "assertExchange mock_channel x t = Inr Undefined"
  "assertQueue mock_channel q = Inr (JStr ''assert success'')"
  "bindQueue mock_channel q x k = Inr (JStr ''bind success'')"
  "topic (fresh_client os ls) = JStr ''anything''"
  by (simp_all add: mock_connection_def mock_channel_def fresh_client_def
      mock_configuration_def mock_exchange_def)



lemma system_events_of_setup_events:
  "filter (is_emit ''system'') t = filter (is_emit ''system'') (setup_events t)"
  by (induction t) (auto simp: setup_events_def)

lemma connect_settled_system_payload:
  assumes "Emit ''system'' p \<in> set (trace_of (connect_settled r st))"
  shows "\<exists>conn ch. r = Inr conn \<and> createChannel conn = Inr ch \<and>
           assertQueue ch (topic st) = Inr p"
proof (cases r)
  case (Inl e)
  with assms show ?thesis by (simp add: connect_settled_rejected trace_of_def)
next
  case (Inr conn)
  from connect_settled_resolved [of conn st] obtain r' rest where
    s: "connect_settled (Inr conn) st =
      (r', fst (snd (connectToTopic (st\<lparr>mqConnection := Some conn\<rparr>))),
       snd (snd (connectToTopic (st\<lparr>mqConnection := Some conn\<rparr>))) @ rest)"
    and rest: "rest = [] \<or> (\<exists>m. rest = [Emit ''error'' (JStr m)])" by blast
  from assms Inr s rest
  have "Emit ''system'' p \<in> set (snd (snd (connectToTopic (st\<lparr>mqConnection := Some conn\<rparr>))))"
    by (auto simp: trace_of_def)
  from connectToTopic_system_payload [OF this] Inr show ?thesis by simp
qed

text \<open>
  C9. Every \<^verbatim>\<open>system\<close> event the chain emits carries the value the queue assertion
  returned, and nothing else; when the setup is accepted there is exactly one such event.
\<close>

theorem system_event_carries_queue_result:
  "(\<forall>p. Emit ''system'' p \<in> set (trace_of (connect_settled r st)) \<longrightarrow>
        (\<exists>conn ch. r = Inr conn \<and> createChannel conn = Inr ch \<and>
                   assertQueue ch (topic st) = Inr p)) \<and>
   (\<forall>conn ch ex xname xtype a result b.
      r = Inr conn \<and>
      createChannel conn = Inr ch \<and>
      get_prop (configuration st) ''exchange'' = Inr ex \<and>
      get_prop ex ''name'' = Inr xname \<and>
      get_prop ex ''type'' = Inr xtype \<and>
      assertExchange ch xname xtype = Inr a \<and>
      assertQueue ch (topic st) = Inr result \<and>
      bindQueue ch (topic st) xname (topic st) = Inr b \<longrightarrow>
      filter (is_emit ''system'') (trace_of (connect_settled r st)) =
        [Emit ''system'' result])"
proof (intro conjI allI impI)
  fix p
  assume "Emit ''system'' p \<in> set (trace_of (connect_settled r st))"
  then show "\<exists>conn ch. r = Inr conn \<and> createChannel conn = Inr ch \<and>
                   assertQueue ch (topic st) = Inr p"
    by (rule connect_settled_system_payload)
next
  fix conn ch ex xname xtype a result b
  assume h: "r = Inr conn \<and>
      createChannel conn = Inr ch \<and>
      get_prop (configuration st) ''exchange'' = Inr ex \<and>
      get_prop ex ''name'' = Inr xname \<and>
      get_prop ex ''type'' = Inr xtype \<and>
      assertExchange ch xname xtype = Inr a \<and>
      assertQueue ch (topic st) = Inr result \<and>
      bindQueue ch (topic st) xname (topic st) = Inr b"
  then have "\<exists>rest. trace_of (connect_settled (Inr conn) st) =
           [CreateChannel, ConnectionOn ''error'', ChannelOn ''error'',
            AssertExchange xname xtype, AssertQueue (topic st),
            BindQueue (topic st) xname (topic st), Emit ''system'' result] @ rest \<and>
           setup_events rest = []"
    by (intro setup_accepted [where ch = ch and ex = ex and a = a and b = b]) simp_all
  then obtain rest where
    t: "trace_of (connect_settled (Inr conn) st) =
           [CreateChannel, ConnectionOn ''error'', ChannelOn ''error'',
            AssertExchange xname xtype, AssertQueue (topic st),
            BindQueue (topic st) xname (topic st), Emit ''system'' result] @ rest"
    and r: "setup_events rest = []" by blast
  from r have "filter (is_emit ''system'') rest = []"
    by (simp add: system_events_of_setup_events [of rest])
  with h show "filter (is_emit ''system'') (trace_of (connect_settled r st)) =
        [Emit ''system'' result]"
    by (simp add: t)
qed

theorem system_event_carries_queue_result_witness:
  "createChannel mock_connection = Inr mock_channel \<and>
   get_prop (configuration (fresh_client default_opts [])) ''exchange'' = Inr mock_exchange \<and>
   get_prop mock_exchange ''name'' = Inr (JStr ''pillar'') \<and>
   get_prop mock_exchange ''type'' = Inr (JStr ''topic'') \<and>
   assertExchange mock_channel (JStr ''pillar'') (JStr ''topic'') = Inr Undefined \<and>
   assertQueue mock_channel (JStr ''anything'') = Inr (JStr ''assert success'') \<and>
   bindQueue mock_channel (JStr ''anything'') (JStr ''pillar'') (JStr ''anything'') =
     Inr (JStr ''bind success'') \<and>
   filter (is_emit ''system'')
     (trace_of (connect_settled (Inr mock_connection) (fresh_client default_opts []))) =
     [Emit ''system'' (JStr ''assert success'')]"
  using system_event_carries_queue_result
    [of "Inr mock_connection" "fresh_client default_opts []"]
  by (simp add: mock_accepts)

section \<open>The options\<close>

lemma connect_settled_opts: "opts (client_of (connect_settled r st)) = opts st"
proof (cases r)
  case (Inl e)
  then show ?thesis by (simp add: connect_settled_rejected client_of_def)
next
  case (Inr conn)
  from connect_settled_resolved [of conn st] connectToTopic_opts [of "st\<lparr>mqConnection := Some conn\<rparr>"]
  show ?thesis by (auto simp: Inr client_of_def)
qed

lemma connect_settled_no_consume:
  assumes "get_prop (opts st) ''consume'' \<noteq> Inr (JBool True)"
  shows "filter is_consume (trace_of (connect_settled r st)) = []"
proof (cases r)
  case (Inl e)
  then show ?thesis by (simp add: connect_settled_rejected trace_of_def)
next
  case (Inr conn)
  from assms have "filter is_consume (snd (snd (connectToTopic (st\<lparr>mqConnection := Some conn\<rparr>)))) = []"
    by (intro connectToTopic_no_consume) simp
  with connect_settled_resolved [of conn st] show ?thesis
    by (auto simp: Inr trace_of_def)
qed

text \<open>
  C10. The constructor stores the default options only when the argument is
  \<^verbatim>\<open>undefined\<close>; any other argument is stored as it is. With the default both flags are
  \<^verbatim>\<open>true\<close>. With an options object that has no \<^verbatim>\<open>consume\<close>, the flag reads
  \<^verbatim>\<open>undefined\<close> and the chain never calls the channel's \<^verbatim>\<open>consume\<close>; with one that
  has no \<^verbatim>\<open>acknowledge\<close>, the flag reads \<^verbatim>\<open>undefined\<close> and no delivery is ever
  acknowledged.
\<close>

theorem defaults_only_when_omitted:
  assumes "constructor cfg tp os = (Inr st, t)"
  shows "opts st = (if os = Undefined then default_opts else os) \<and>
     (os = Undefined \<longrightarrow>
        get_prop (opts st) ''consume'' = Inr (JBool True) \<and>
        get_prop (opts st) ''acknowledge'' = Inr (JBool True)) \<and>
     (os = JObj m \<and> m ''consume'' = None \<longrightarrow>
        get_prop (opts st) ''consume'' = Inr Undefined \<and>
        filter is_consume (trace_of (connect_settled r (st\<lparr>listeners := ls\<rparr>))) = []) \<and>
     (os = JObj m \<and> m ''acknowledge'' = None \<longrightarrow>
        get_prop (opts st) ''acknowledge'' = Inr Undefined \<and>
        filter is_ack
          (deliveries rt msgs (client_of (connect_settled r (st\<lparr>listeners := ls\<rparr>)))) = [])"
proof -
  from assms have o: "opts st = (if os = Undefined then default_opts else os)"
    by (auto simp: constructor_def split: if_splits)
  have d: "get_prop default_opts ''consume'' = Inr (JBool True) \<and>
           get_prop default_opts ''acknowledge'' = Inr (JBool True)"
    by (simp add: default_opts_def)
  have n: "filter is_consume (trace_of (connect_settled r (st\<lparr>listeners := ls\<rparr>))) = []"
    if "os = JObj m" "m ''consume'' = None"
    by (rule connect_settled_no_consume) (simp add: o that)
  have a: "filter is_ack
          (deliveries rt msgs (client_of (connect_settled r (st\<lparr>listeners := ls\<rparr>)))) = []"
    if "os = JObj m" "m ''acknowledge'' = None"
    by (rule deliveries_no_ack) (simp add: connect_settled_opts o that)
  have g: "get_prop (opts st) k = Inr Undefined" if "os = JObj m" "m k = None" for k
    by (simp add: o that)
  from o d n a g show ?thesis by auto
qed

theorem defaults_only_when_omitted_witness:
  "constructor mock_configuration (JStr ''anything'') only_consume =
     (Inr (fresh_client only_consume []), [Connect mock_configuration]) \<and>
   get_prop only_consume ''acknowledge'' = Inr Undefined \<and>
   filter is_ack
     (deliveries mock_runtime [delivery ''1'', delivery ''not-json'']
        (client_of (connect_settled (Inr mock_connection) (fresh_client only_consume [])))) = [] \<and>
   constructor mock_configuration (JStr ''anything'') only_acknowledge =
     (Inr (fresh_client only_acknowledge []), [Connect mock_configuration]) \<and>
   get_prop only_acknowledge ''consume'' = Inr Undefined \<and>
   filter is_consume
     (trace_of (connect_settled (Inr mock_connection) (fresh_client only_acknowledge []))) = []"
proof -
  have c1: "constructor mock_configuration (JStr ''anything'') only_consume =
     (Inr (fresh_client only_consume []), [Connect mock_configuration])"
    by (simp add: constructor_def fresh_client_def only_consume_def mock_configuration_def)
  have c2: "constructor mock_configuration (JStr ''anything'') only_acknowledge =
     (Inr (fresh_client only_acknowledge []), [Connect mock_configuration])"
    by (simp add: constructor_def fresh_client_def only_acknowledge_def mock_configuration_def)
  have l: "fresh_client os []\<lparr>listeners := []\<rparr> = fresh_client os []" for os
    by (simp add: fresh_client_def)
  have m1: "only_consume = JObj [''consume'' \<mapsto> JBool True] \<and>
            [''consume'' \<mapsto> JBool True] ''acknowledge'' = None"
    by (simp add: only_consume_def)
  have m2: "only_acknowledge = JObj [''acknowledge'' \<mapsto> JBool True] \<and>
            [''acknowledge'' \<mapsto> JBool True] ''consume'' = None"
    by (simp add: only_acknowledge_def)
  have o: "opts (fresh_client os []) = os" for os by (simp add: fresh_client_def)
  from defaults_only_when_omitted [OF c1, where m = "[''consume'' \<mapsto> JBool True]"
      and ls = "[]" and r = "Inr mock_connection" and rt = mock_runtime
      and msgs = "[delivery ''1'', delivery ''not-json'']"] m1
  have 1: "get_prop only_consume ''acknowledge'' = Inr Undefined \<and>
    filter is_ack
     (deliveries mock_runtime [delivery ''1'', delivery ''not-json'']
        (client_of (connect_settled (Inr mock_connection) (fresh_client only_consume [])))) = []"
    unfolding l o by blast
  from defaults_only_when_omitted [OF c2, where m = "[''acknowledge'' \<mapsto> JBool True]"
      and ls = "[]" and r = "Inr mock_connection"] m2
  have 2: "get_prop only_acknowledge ''consume'' = Inr Undefined \<and>
    filter is_consume
     (trace_of (connect_settled (Inr mock_connection) (fresh_client only_acknowledge []))) = []"
    unfolding l o by blast
  from c1 c2 1 2 show ?thesis by blast
qed

section \<open>The constructor\<close>

text \<open>
  C7. Constructed with a falsy configuration, the constructor throws, every time the
  same error; no instance comes back, the driver's \<^verbatim>\<open>connect\<close> is not called and
  no event is emitted.
\<close>

theorem constructor_absent_configuration:
  assumes "\<not> truthy incomingConfiguration"
  shows "constructor incomingConfiguration tp os =
           (Inl (JsError ''Error'' ''No incoming configuration was found!''), [])"
  using assms by (simp add: constructor_def)

theorem constructor_absent_configuration_witness:
  "\<not> truthy Undefined \<and>
   constructor Undefined (JStr ''anything'') Undefined =
     (Inl (JsError ''Error'' ''No incoming configuration was found!''), [])"
  using constructor_absent_configuration [of Undefined "JStr ''anything''" Undefined] by simp

end
